theory Spec2Isabelle
  imports Main
begin

section \<open>The blog controller of the Fastify tutorial\<close>

text \<open>
  The development embeds \<^verbatim>\<open>src/controller/blogs.js\<close>: the module-level array
  \<^verbatim>\<open>blogs\<close> and the five handlers \<^verbatim>\<open>getAllBlogs\<close>, \<^verbatim>\<open>getBlog\<close>,
  \<^verbatim>\<open>addBlog\<close>, \<^verbatim>\<open>updateBlog\<close> and \<^verbatim>\<open>deleteBlog\<close>. Each handler reads and
  possibly reassigns \<^verbatim>\<open>blogs\<close>, so it is modelled as a function from the request
  and the current array to its outcome and the array afterwards.
\<close>

subsection \<open>JavaScript values\<close>

text \<open>
  The identifiers are JavaScript numbers (doubles): the stored ones are array
  lengths plus one, the requested one is \<^verbatim>\<open>Number(req.params.id)\<close>, which may be
  any number: an integer, a fraction, an infinity or \<^verbatim>\<open>NaN\<close>
  (\<^verbatim>\<open>Number("abc")\<close> and \<^verbatim>\<open>Number(undefined)\<close> are \<^verbatim>\<open>NaN\<close>). The handlers do
  two things with a number: they compare it with \<^verbatim>\<open>===\<close> and they print it in a
  template literal.

  A number is represented by the text that a template literal \<^verbatim>\<open>${x}\<close> prints
  for it: \<open>Printed ''2''\<close> is 2, \<open>Printed ''1.5''\<close> is 1.5, \<open>Printed ''1e+21''\<close>
  is \<open>10\<^sup>2\<^sup>1\<close>, \<open>Printed ''144115188075855870''\<close> is \<open>2\<^sup>5\<^sup>7\<close>,
  \<open>Printed ''Infinity''\<close> is the positive infinity and \<open>Printed ''NaN''\<close> is
  \<^verbatim>\<open>NaN\<close>. The printed text is the shortest decimal that reads back as the same
  double, so two numbers with the same text are the same number, but for
  \<open>0\<close> and \<open>-0\<close>, which both print as \<open>0\<close> and which \<^verbatim>\<open>===\<close> does not tell apart
  either. A text that no number prints as (\<open>''abc''\<close>, \<open>''007''\<close>) stands for no
  number. The conversion \<^verbatim>\<open>Number\<close> from the path string is not modelled: a
  request carries the number it produces.
\<close>

datatype number = Printed string

abbreviation NaN :: number where
  "NaN \<equiv> Printed ''NaN''"

text \<open>
  The operator \<^verbatim>\<open>===\<close> on two numbers: they are the same number, and not
  \<^verbatim>\<open>NaN\<close>, which equals nothing, itself included.
\<close>

fun strict_eq :: "number \<Rightarrow> number \<Rightarrow> bool" where
  "strict_eq (Printed a) (Printed b) = (a = b \<and> a \<noteq> ''NaN'')"

text \<open>The text a template literal \<^verbatim>\<open>${id}\<close> inserts for a number.\<close>

fun ToString :: "number \<Rightarrow> string" where
  "ToString (Printed s) = s"

text \<open>
  The decimal digits of a natural number: what a non-negative integer below
  \<open>2\<^sup>5\<^sup>3\<close> prints as. It is used for \<^verbatim>\<open>blogs.length + 1\<close>; an array has
  fewer than \<open>2\<^sup>3\<^sup>2\<close> elements.
\<close>

fun digits :: "nat \<Rightarrow> string" where
  "digits n =
     (if n < 10 then [''0123456789'' ! n]
      else digits (n div 10) @ [''0123456789'' ! (n mod 10)])"

declare digits.simps [simp del]

text \<open>
  The only exception the handlers can raise: reading a property of \<^verbatim>\<open>undefined\<close>
  (\<^verbatim>\<open>blog.id\<close> on an undefined array element, \<^verbatim>\<open>req.body.title\<close> on a request
  without a body) throws a \<^verbatim>\<open>TypeError\<close>.
\<close>

datatype error = TypeError

subsection \<open>Records, the array and requests\<close>

text \<open>
  A blog object \<^verbatim>\<open>{ id, title }\<close>. The handlers never inspect a title, so its type
  is a parameter (a string for every request that passed the body schema).
\<close>

record 'v blog =
  blog_id :: number
  title :: 'v

text \<open>
  An element of \<^verbatim>\<open>blogs\<close> is a blog object or \<^verbatim>\<open>undefined\<close> (\<open>None\<close>): the
  callback of \<^verbatim>\<open>updateBlog\<close> returns nothing for an element it does not replace.
\<close>

type_synonym 'v store = "'v blog option list"

text \<open>
  What a handler reads of a request: \<open>params_id\<close> is \<^verbatim>\<open>Number(req.params.id)\<close>;
  \<open>body\<close> is \<open>None\<close> when \<^verbatim>\<open>req.body\<close> is undefined or null and \<open>Some t\<close> when
  it is an object whose \<^verbatim>\<open>title\<close> property reads as \<open>t\<close>.
\<close>

record 'v request =
  params_id :: number
  body :: "'v option"

text \<open>\<^verbatim>\<open>req.body.title\<close>\<close>

definition body_title :: "'v request \<Rightarrow> error + 'v" where
  "body_title req = (case body req of None \<Rightarrow> Inl TypeError | Some t \<Rightarrow> Inr t)"

text \<open>\<^verbatim>\<open>blog.id\<close> for an array element \<^verbatim>\<open>blog\<close>\<close>

definition get_id :: "'v blog option \<Rightarrow> error + number" where
  "get_id blog = (case blog of None \<Rightarrow> Inl TypeError | Some b \<Rightarrow> Inr (blog_id b))"

text \<open>The object \<^verbatim>\<open>{ msg: ... }\<close> that \<^verbatim>\<open>deleteBlog\<close> returns.\<close>

record reply_msg =
  msg :: string

subsection \<open>Array methods with a callback that may throw\<close>

text \<open>
  \<^verbatim>\<open>Array.prototype.find\<close>, \<^verbatim>\<open>filter\<close> and \<^verbatim>\<open>map\<close> call the callback on the
  elements from index 0 upwards; an exception of the callback ends the call.
  \<^verbatim>\<open>find\<close> returns the first element the callback accepts, or \<^verbatim>\<open>undefined\<close>.
\<close>

fun find_js :: "('a \<Rightarrow> error + bool) \<Rightarrow> 'a list \<Rightarrow> error + 'a option" where
  "find_js p [] = Inr None"
| "find_js p (x # xs) =
     (case p x of
        Inl e \<Rightarrow> Inl e
      | Inr True \<Rightarrow> Inr (Some x)
      | Inr False \<Rightarrow> find_js p xs)"

fun filter_js :: "('a \<Rightarrow> error + bool) \<Rightarrow> 'a list \<Rightarrow> error + 'a list" where
  "filter_js p [] = Inr []"
| "filter_js p (x # xs) =
     (case p x of
        Inl e \<Rightarrow> Inl e
      | Inr keep \<Rightarrow>
          (case filter_js p xs of
             Inl e \<Rightarrow> Inl e
           | Inr ys \<Rightarrow> Inr (if keep then x # ys else ys)))"

fun map_js :: "('a \<Rightarrow> error + 'b) \<Rightarrow> 'a list \<Rightarrow> error + 'b list" where
  "map_js f [] = Inr []"
| "map_js f (x # xs) =
     (case f x of
        Inl e \<Rightarrow> Inl e
      | Inr y \<Rightarrow>
          (case map_js f xs of
             Inl e \<Rightarrow> Inl e
           | Inr ys \<Rightarrow> Inr (y # ys)))"

subsection \<open>The demo data and the handlers\<close>

definition blogs :: "string store" where
  "blogs =
     [Some \<lparr>blog_id = Printed ''1'', title = ''This is an experiment''\<rparr>,
      Some \<lparr>blog_id = Printed ''2'', title = ''Fastify is pretty cool''\<rparr>,
      Some \<lparr>blog_id = Printed ''3'', title = ''Just another blog, yea!''\<rparr>]"

text \<open>
  A handler returns the value its promise resolves to (\<open>Inr\<close>) or the exception it
  rejects with (\<open>Inl\<close>), together with the array afterwards.
\<close>

definition getAllBlogs :: "'v request \<Rightarrow> 'v store \<Rightarrow> (error + 'v store) \<times> 'v store" where
  "getAllBlogs req bs = (Inr bs, bs)"

text \<open>The result \<open>Inr None\<close> is \<^verbatim>\<open>undefined\<close>: no element was found.\<close>

definition getBlog :: "'v request \<Rightarrow> 'v store \<Rightarrow> (error + 'v blog option) \<times> 'v store" where
  "getBlog req bs =
     (let i = params_id req in
      case find_js (\<lambda>blog. case get_id blog of
                              Inl e \<Rightarrow> Inl e
                            | Inr n \<Rightarrow> Inr (strict_eq n i)) bs of
        Inl e \<Rightarrow> (Inl e, bs)
      | Inr None \<Rightarrow> (Inr None, bs)
      | Inr (Some blog) \<Rightarrow> (Inr blog, bs))"

definition addBlog :: "'v request \<Rightarrow> 'v store \<Rightarrow> (error + 'v blog) \<times> 'v store" where
  "addBlog req bs =
     (let i = Printed (digits (length bs + 1)) in
      case body_title req of
        Inl e \<Rightarrow> (Inl e, bs)
      | Inr t \<Rightarrow>
          (let newBlog = \<lparr>blog_id = i, title = t\<rparr>
           in (Inr newBlog, bs @ [Some newBlog])))"

text \<open>
  The callback of \<^verbatim>\<open>map\<close> returns the new object for a matching element and falls
  off its end otherwise, which yields \<^verbatim>\<open>undefined\<close>. The array is assigned once
  \<^verbatim>\<open>map\<close> has returned; the object to return is built afterwards.
\<close>

definition updateBlog :: "'v request \<Rightarrow> 'v store \<Rightarrow> (error + 'v blog) \<times> 'v store" where
  "updateBlog req bs =
     (let i = params_id req in
      case map_js (\<lambda>blog. case get_id blog of
                             Inl e \<Rightarrow> Inl e
                           | Inr n \<Rightarrow>
                               if strict_eq n i
                               then (case body_title req of
                                       Inl e \<Rightarrow> Inl e
                                     | Inr t \<Rightarrow> Inr (Some \<lparr>blog_id = i, title = t\<rparr>))
                               else Inr None) bs of
        Inl e \<Rightarrow> (Inl e, bs)
      | Inr bs' \<Rightarrow>
          (case body_title req of
             Inl e \<Rightarrow> (Inl e, bs')
           | Inr t \<Rightarrow> (Inr \<lparr>blog_id = i, title = t\<rparr>, bs')))"

definition deleteBlog :: "'v request \<Rightarrow> 'v store \<Rightarrow> (error + reply_msg) \<times> 'v store" where
  "deleteBlog req bs =
     (let i = params_id req in
      case filter_js (\<lambda>blog. case get_id blog of
                                Inl e \<Rightarrow> Inl e
                              | Inr n \<Rightarrow> Inr (\<not> strict_eq n i)) bs of
        Inl e \<Rightarrow> (Inl e, bs)
      | Inr bs' \<Rightarrow> (Inr \<lparr>msg = ''Blog with ID '' @ ToString i @ '' is deleted''\<rparr>, bs'))"

subsection \<open>Predicates of the specification\<close>

text \<open>An array element is a record whose id is \<^verbatim>\<open>===\<close> the number \<open>i\<close>.\<close>

definition matches :: "number \<Rightarrow> 'v blog option \<Rightarrow> bool" where
  "matches i blog = (case blog of None \<Rightarrow> False | Some b \<Rightarrow> strict_eq (blog_id b) i)"

text \<open>The records of the array, in order, and the invariant "one record per id".\<close>

definition records :: "'v store \<Rightarrow> 'v blog list" where
  "records bs = [b. Some b \<leftarrow> bs]"

definition unique_ids :: "'v store \<Rightarrow> bool" where
  "unique_ids bs = distinct (map blog_id (records bs))"

text \<open>The store of the scenario of the specification: \<open>[{1,"A"},{2,"B"},{3,"C"}]\<close>.\<close>

definition scenario_store :: "string store" where
  "scenario_store =
     [Some \<lparr>blog_id = Printed ''1'', title = ''A''\<rparr>,
      Some \<lparr>blog_id = Printed ''2'', title = ''B''\<rparr>,
      Some \<lparr>blog_id = Printed ''3'', title = ''C''\<rparr>]"

section \<open>Properties\<close>

subsection \<open>Basic facts\<close>

lemma get_id_simps [simp]:
  "get_id None = Inl TypeError"
  "get_id (Some b) = Inr (blog_id b)"
  by (simp_all add: get_id_def)

lemma matches_simps [simp]:
  "matches i None = False"
  "matches i (Some b) = strict_eq (blog_id b) i"
  by (simp_all add: matches_def)

lemma body_title_simps [simp]:
  "body_title \<lparr>params_id = i, body = None\<rparr> = Inl TypeError"
  "body_title \<lparr>params_id = i, body = Some t\<rparr> = Inr t"
  by (simp_all add: body_title_def)

lemma records_simps [simp]:
  "records [] = []"
  "records (None # bs) = records bs"
  "records (Some b # bs) = b # records bs"
  by (simp_all add: records_def)

lemma digits_chars: "set (digits n) \<subseteq> set ''0123456789''"
proof (induction n rule: digits.induct)
  case (1 n)
  have "n mod 10 < length ''0123456789''" by simp
  then have m: "''0123456789'' ! (n mod 10) \<in> set ''0123456789''" by (rule nth_mem)
  show ?case
  proof (cases "n < 10")
    case True
    with m show ?thesis by (simp add: digits.simps [of n])
  next
    case False
    with 1 m show ?thesis by (simp add: digits.simps [of n])
  qed
qed

lemma digits_not_NaN: "digits n \<noteq> ''NaN''"
proof
  assume "digits n = ''NaN''"
  then have "CHR ''N'' \<in> set (digits n)" by simp
  with digits_chars [of n] show False by auto
qed

lemma strict_eq_imp_eq: "strict_eq a b \<Longrightarrow> a = b"
  by (cases a; cases b) simp_all

lemma strict_eq_NaN [simp]: "strict_eq n NaN = False"
  by (cases n) simp_all

subsection \<open>The handlers on an array without undefined elements\<close>

text \<open>
  As long as every element of the array is a record, no callback throws, and the
  three array methods are \<^const>\<open>find\<close>, \<^const>\<open>filter\<close> and \<^const>\<open>map\<close>.
\<close>

lemma find_js_defined:
  "None \<notin> set bs \<Longrightarrow>
   find_js (\<lambda>blog. case get_id blog of Inl e \<Rightarrow> Inl e | Inr n \<Rightarrow> Inr (strict_eq n i)) bs
     = Inr (find (matches i) bs)"
proof (induction bs)
  case Nil
  then show ?case by simp
next
  case (Cons a bs)
  then show ?case by (cases a) auto
qed

lemma filter_js_defined:
  "None \<notin> set bs \<Longrightarrow>
   filter_js (\<lambda>blog. case get_id blog of Inl e \<Rightarrow> Inl e | Inr n \<Rightarrow> Inr (\<not> strict_eq n i)) bs
     = Inr (filter (\<lambda>blog. \<not> matches i blog) bs)"
proof (induction bs)
  case Nil
  then show ?case by simp
next
  case (Cons a bs)
  then show ?case by (cases a) auto
qed

lemma map_js_defined:
  "None \<notin> set bs \<Longrightarrow>
   map_js (\<lambda>blog. case get_id blog of
                     Inl e \<Rightarrow> Inl e
                   | Inr n \<Rightarrow>
                       if strict_eq n i
                       then (case body_title \<lparr>params_id = i, body = Some t\<rparr> of
                               Inl e \<Rightarrow> Inl e
                             | Inr t \<Rightarrow> Inr (Some \<lparr>blog_id = i, title = t\<rparr>))
                       else Inr None) bs
     = Inr (map (\<lambda>blog. if matches i blog then Some \<lparr>blog_id = i, title = t\<rparr> else None) bs)"
proof (induction bs)
  case Nil
  then show ?case by simp
next
  case (Cons a bs)
  then show ?case by (cases a) auto
qed

lemma getBlog_defined:
  "None \<notin> set bs \<Longrightarrow>
   getBlog req bs =
     (Inr (case find (matches (params_id req)) bs of None \<Rightarrow> None | Some blog \<Rightarrow> blog), bs)"
  by (simp add: getBlog_def Let_def find_js_defined split: option.splits)

lemma deleteBlog_defined:
  "None \<notin> set bs \<Longrightarrow>
   deleteBlog req bs =
     (Inr \<lparr>msg = ''Blog with ID '' @ ToString (params_id req) @ '' is deleted''\<rparr>,
      filter (\<lambda>blog. \<not> matches (params_id req) blog) bs)"
  by (simp add: deleteBlog_def Let_def filter_js_defined)

lemma updateBlog_defined:
  "None \<notin> set bs \<Longrightarrow>
   updateBlog \<lparr>params_id = i, body = Some t\<rparr> bs =
     (Inr \<lparr>blog_id = i, title = t\<rparr>,
      map (\<lambda>blog. if matches i blog then Some \<lparr>blog_id = i, title = t\<rparr> else None) bs)"
  by (simp add: updateBlog_def Let_def map_js_defined)

lemma addBlog_body:
  "addBlog \<lparr>params_id = i, body = Some t\<rparr> bs =
     (Inr \<lparr>blog_id = Printed (digits (length bs + 1)), title = t\<rparr>,
      bs @ [Some \<lparr>blog_id = Printed (digits (length bs + 1)), title = t\<rparr>])"
  by (simp add: addBlog_def Let_def)

text \<open>A request for an id that no record has finds nothing.\<close>

lemma getBlog_absent:
  assumes "None \<notin> set bs" and "\<not> list_ex (matches (params_id req)) bs"
  shows "getBlog req bs = (Inr None, bs)"
proof -
  from assms(2) have "find (matches (params_id req)) bs = None"
    by (simp add: find_None_iff list_ex_iff)
  with assms(1) show ?thesis by (simp add: getBlog_defined)
qed

text \<open>After a deletion the id is not found any more.\<close>

lemma getBlog_after_deleteBlog:
  assumes "None \<notin> set bs"
  shows "getBlog req (snd (deleteBlog req bs)) = (Inr None, snd (deleteBlog req bs))"
proof -
  let ?bs' = "filter (\<lambda>blog. \<not> matches (params_id req) blog) bs"
  from assms have "None \<notin> set ?bs'" by simp
  moreover have "\<not> list_ex (matches (params_id req)) ?bs'"
    by (simp add: list_ex_iff)
  ultimately have "getBlog req ?bs' = (Inr None, ?bs')"
    by (rule getBlog_absent)
  with assms show ?thesis by (simp add: deleteBlog_defined)
qed

lemma find_append_None: "find P xs = None \<Longrightarrow> find P (xs @ ys) = find P ys"
  by (induction xs) (auto split: if_splits)

text \<open>
  A new record is found under its id when no older record has the id
  \<open>length + 1\<close>.
\<close>

lemma getBlog_after_addBlog:
  assumes "None \<notin> set bs" and "\<not> list_ex (matches (Printed (digits (length bs + 1)))) bs"
  shows "getBlog \<lparr>params_id = Printed (digits (length bs + 1)), body = b\<rparr>
           (snd (addBlog \<lparr>params_id = i, body = Some t\<rparr> bs))
         = (Inr (Some \<lparr>blog_id = Printed (digits (length bs + 1)), title = t\<rparr>),
            snd (addBlog \<lparr>params_id = i, body = Some t\<rparr> bs))"
proof -
  let ?n = "Printed (digits (length bs + 1))"
  from assms(2) have "find (matches ?n) bs = None"
    by (simp add: find_None_iff list_ex_iff)
  then have "find (matches ?n) (bs @ [Some \<lparr>blog_id = ?n, title = t\<rparr>])
               = Some (Some \<lparr>blog_id = ?n, title = t\<rparr>)"
    by (simp add: find_append_None digits_not_NaN)
  with assms(1) show ?thesis
    by (simp add: addBlog_body getBlog_defined)
qed

text \<open>
  The message carries the number as the template literal prints it, also for an
  id that is no small integer: \<open>2\<^sup>5\<^sup>7\<close> (the path
  \<^verbatim>\<open>/api/blogs/144115188075855872\<close>), \<open>10\<^sup>2\<^sup>1\<close>, a fraction, \<^verbatim>\<open>NaN\<close>.
\<close>

lemma deleteBlog_message_examples:
  "fst (deleteBlog \<lparr>params_id = Printed ''144115188075855870'', body = None\<rparr> blogs)
     = Inr \<lparr>msg = ''Blog with ID 144115188075855870 is deleted''\<rparr>"
  "fst (deleteBlog \<lparr>params_id = Printed ''1e+21'', body = None\<rparr> blogs)
     = Inr \<lparr>msg = ''Blog with ID 1e+21 is deleted''\<rparr>"
  "fst (deleteBlog \<lparr>params_id = Printed ''1.5'', body = None\<rparr> blogs)
     = Inr \<lparr>msg = ''Blog with ID 1.5 is deleted''\<rparr>"
  "fst (deleteBlog \<lparr>params_id = NaN, body = None\<rparr> blogs)
     = Inr \<lparr>msg = ''Blog with ID NaN is deleted''\<rparr>"
  by (simp_all add: deleteBlog_def blogs_def Let_def)

subsection \<open>The handlers on an array with an undefined element\<close>

text \<open>
  Reading \<^verbatim>\<open>blog.id\<close> of an undefined element throws, so \<^verbatim>\<open>filter\<close> and
  \<^verbatim>\<open>map\<close>, which visit every element, fail, and the array is not reassigned.
\<close>

lemma error_is_TypeError: "(e::error) = TypeError"
  by (cases e) simp

lemma filter_js_undefined:
  "None \<in> set bs \<Longrightarrow>
   filter_js (\<lambda>blog. case get_id blog of Inl e \<Rightarrow> Inl e | Inr n \<Rightarrow> Inr (g n)) bs
     = Inl TypeError"
proof (induction bs)
  case Nil
  then show ?case by simp
next
  case (Cons a bs)
  then show ?case by (cases a) (auto simp: error_is_TypeError split: sum.splits)
qed

lemma map_js_undefined:
  "None \<in> set bs \<Longrightarrow>
   map_js (\<lambda>blog. case get_id blog of Inl e \<Rightarrow> Inl e | Inr n \<Rightarrow> g n) bs = Inl TypeError"
proof (induction bs)
  case Nil
  then show ?case by simp
next
  case (Cons a bs)
  then show ?case by (cases a) (auto simp: error_is_TypeError split: sum.splits)
qed

lemma deleteBlog_undefined: "None \<in> set bs \<Longrightarrow> deleteBlog req bs = (Inl TypeError, bs)"
  by (simp add: deleteBlog_def Let_def filter_js_undefined)

lemma updateBlog_undefined: "None \<in> set bs \<Longrightarrow> updateBlog req bs = (Inl TypeError, bs)"
  by (simp add: updateBlog_def Let_def map_js_undefined)

text \<open>
  An update without a body on an array of records: the callback throws at the
  first matching record; without one, every element is replaced by
  \<^verbatim>\<open>undefined\<close> before the \<^verbatim>\<open>return\<close> statement throws.
\<close>

lemma map_js_no_body:
  "None \<notin> set bs \<Longrightarrow>
   map_js (\<lambda>blog. case get_id blog of
                     Inl e \<Rightarrow> Inl e
                   | Inr n \<Rightarrow>
                       if strict_eq n i
                       then (case body_title \<lparr>params_id = i, body = None\<rparr> of
                               Inl e \<Rightarrow> Inl e
                             | Inr t \<Rightarrow> Inr (Some \<lparr>blog_id = i, title = t\<rparr>))
                       else Inr None) bs
     = (if list_ex (matches i) bs then Inl TypeError else Inr (map (\<lambda>blog. None) bs))"
proof (induction bs)
  case Nil
  then show ?case by simp
next
  case (Cons a bs)
  then show ?case by (cases a) auto
qed

lemma updateBlog_no_body:
  "None \<notin> set bs \<Longrightarrow>
   updateBlog \<lparr>params_id = i, body = None\<rparr> bs =
     (Inl TypeError, if list_ex (matches i) bs then bs else map (\<lambda>blog. None) bs)"
  by (simp add: updateBlog_def Let_def map_js_no_body)

subsection \<open>The two reading handlers leave the array as it is\<close>

lemma getAllBlogs_unchanged: "snd (getAllBlogs req bs) = bs"
  by (simp add: getAllBlogs_def)

lemma getBlog_unchanged: "snd (getBlog req bs) = bs"
  by (simp add: getBlog_def Let_def split: sum.splits option.splits)

subsection \<open>One record per id: what deletion and update keep\<close>

lemma records_filter_subset: "set (records (filter P bs)) \<subseteq> set (records bs)"
proof (induction bs)
  case Nil
  then show ?case by simp
next
  case (Cons a bs)
  then show ?case by (cases a) auto
qed

lemma unique_ids_filter: "unique_ids bs \<Longrightarrow> unique_ids (filter P bs)"
proof (induction bs)
  case Nil
  then show ?case by (simp add: unique_ids_def)
next
  case (Cons a bs)
  show ?case
  proof (cases a)
    case None
    with Cons show ?thesis by (simp add: unique_ids_def)
  next
    case (Some b)
    with Cons records_filter_subset [of P bs] show ?thesis
      by (auto simp: unique_ids_def)
  qed
qed

lemma records_update:
  "b \<in> set (records (map (\<lambda>blog. if matches i blog then Some \<lparr>blog_id = i, title = t\<rparr>
                                   else None) bs))
   \<Longrightarrow> i \<in> blog_id ` set (records bs)"
proof (induction bs)
  case Nil
  then show ?case by simp
next
  case (Cons a bs)
  then show ?case
    by (cases a) (auto dest: strict_eq_imp_eq split: if_splits)
qed

lemma unique_ids_update:
  "unique_ids bs \<Longrightarrow>
   unique_ids (map (\<lambda>blog. if matches i blog then Some \<lparr>blog_id = i, title = t\<rparr> else None) bs)"
proof (induction bs)
  case Nil
  then show ?case by (simp add: unique_ids_def)
next
  case (Cons a bs)
  show ?case
  proof (cases a)
    case None
    with Cons show ?thesis by (simp add: unique_ids_def)
  next
    case (Some b)
    let ?f = "\<lambda>blog. if matches i blog then Some \<lparr>blog_id = i, title = t\<rparr> else None"
    from Cons Some have fresh: "blog_id b \<notin> blog_id ` set (records bs)"
      and IH: "unique_ids (map ?f bs)"
      by (simp_all add: unique_ids_def)
    show ?thesis
    proof (cases "strict_eq (blog_id b) i")
      case True
      then have "blog_id b = i" by (rule strict_eq_imp_eq)
      with fresh have "i \<notin> blog_id ` set (records bs)" by simp
      then have "\<forall>x \<in> set (records (map ?f bs)). blog_id x \<noteq> i"
        using records_update [of _ i t bs] by blast
      with IH Some True show ?thesis
        by (auto simp: unique_ids_def)
    next
      case False
      with IH Some show ?thesis by (simp add: unique_ids_def)
    qed
  qed
qed

lemma records_all_undefined: "records (map (\<lambda>blog. None) bs) = []"
  by (induction bs) simp_all

text \<open>In every state and for every request, deletion and update keep the invariant.\<close>

lemma deleteBlog_unique_ids: "unique_ids bs \<Longrightarrow> unique_ids (snd (deleteBlog req bs))"
  by (cases "None \<in> set bs")
    (simp_all add: deleteBlog_undefined deleteBlog_defined unique_ids_filter)

lemma updateBlog_unique_ids:
  assumes "unique_ids bs"
  shows "unique_ids (snd (updateBlog req bs))"
proof (cases "None \<in> set bs")
  case True
  with assms show ?thesis by (simp add: updateBlog_undefined)
next
  case False
  obtain i b where req: "req = \<lparr>params_id = i, body = b\<rparr>" by (cases req) simp
  show ?thesis
  proof (cases b)
    case None
    with False assms req show ?thesis
      by (simp add: updateBlog_no_body unique_ids_def records_all_undefined)
  next
    case (Some t)
    with False assms req show ?thesis
      by (simp add: updateBlog_defined unique_ids_update)
  qed
qed

section \<open>The claims of the specification\<close>

subsection \<open>Identifier assignment\<close>

text \<open>
  Claim C1: Create gives the new record an id strictly greater than any id ever
  issued, so that ids stay unique also after deletions, and appends and returns
  the record. The handler takes the length of the array plus one. On the demo
  data, after the record with id 2 is deleted, the next record gets the id 3
  although the record with id 3 is still in the array (and 3 is not greater than
  the ids 1, 2, 3 issued before). The record is appended and returned.
\<close>

theorem addBlog_reissues_id_after_deleteBlog:
  "snd (deleteBlog \<lparr>params_id = Printed ''2'', body = None\<rparr> blogs) =
     [Some \<lparr>blog_id = Printed ''1'', title = ''This is an experiment''\<rparr>,
      Some \<lparr>blog_id = Printed ''3'', title = ''Just another blog, yea!''\<rparr>]
   \<and> addBlog \<lparr>params_id = NaN, body = Some ''D''\<rparr>
         [Some \<lparr>blog_id = Printed ''1'', title = ''This is an experiment''\<rparr>,
          Some \<lparr>blog_id = Printed ''3'', title = ''Just another blog, yea!''\<rparr>] =
       (Inr \<lparr>blog_id = Printed ''3'', title = ''D''\<rparr>,
        [Some \<lparr>blog_id = Printed ''1'', title = ''This is an experiment''\<rparr>,
         Some \<lparr>blog_id = Printed ''3'', title = ''Just another blog, yea!''\<rparr>,
         Some \<lparr>blog_id = Printed ''3'', title = ''D''\<rparr>])"
  by (simp add: deleteBlog_def addBlog_def blogs_def Let_def digits.simps)

text \<open>
  Claim C2: the array holds exactly one record per id, initially and after every
  operation. The demo data satisfy this, but deleting the record with id 2 and
  then adding a record leaves two records with id 3.
\<close>

theorem unique_ids_lost_by_addBlog:
  "unique_ids blogs
   \<and> \<not> unique_ids
         (snd (addBlog \<lparr>params_id = NaN, body = Some ''D''\<rparr>
                 (snd (deleteBlog \<lparr>params_id = Printed ''2'', body = None\<rparr> blogs))))"
  by (simp add: unique_ids_def deleteBlog_def addBlog_def blogs_def Let_def digits.simps)

subsection \<open>Update\<close>

text \<open>
  Claim C3, as stated: Update on an id that no record has yields not-found and
  leaves the collection unchanged. It fails on the demo data for the id 9: the
  handler returns the record built from the request, and the array is not the
  one before.
\<close>

theorem updateBlog_missing_id_counterexample:
  "\<not> list_ex (matches (Printed ''9'')) blogs
   \<and> fst (updateBlog \<lparr>params_id = Printed ''9'', body = Some ''X''\<rparr> blogs)
       = Inr \<lparr>blog_id = Printed ''9'', title = ''X''\<rparr>
   \<and> snd (updateBlog \<lparr>params_id = Printed ''9'', body = Some ''X''\<rparr> blogs) \<noteq> blogs"
  by (simp add: updateBlog_def blogs_def Let_def)

text \<open>
  Claim C3, amended: for every id that no record of the array has and every
  title, on an array whose elements are all records, Update does not signal
  not-found: it returns the record \<open>{id, title}\<close> built from the request.
\<close>

theorem updateBlog_missing_id_returns_record:
  assumes "None \<notin> set bs" and "\<not> list_ex (matches i) bs"
  shows "fst (updateBlog \<lparr>params_id = i, body = Some t\<rparr> bs) = Inr \<lparr>blog_id = i, title = t\<rparr>"
  using assms(1) by (simp add: updateBlog_defined)

theorem updateBlog_missing_id_returns_record_witness:
  "None \<notin> set blogs \<and> \<not> list_ex (matches (Printed ''9'')) blogs
   \<and> fst (updateBlog \<lparr>params_id = Printed ''9'', body = Some ''X''\<rparr> blogs)
       = Inr \<lparr>blog_id = Printed ''9'', title = ''X''\<rparr>"
proof -
  have 1: "None \<notin> set blogs" by (simp add: blogs_def)
  have 2: "\<not> list_ex (matches (Printed ''9'')) blogs" by (simp add: blogs_def)
  from 1 2 updateBlog_missing_id_returns_record [OF 1 2, of "''X''"] show ?thesis
    by simp
qed

text \<open>
  Claim C4: Update on an id that a record has replaces the title of that record,
  keeps its id, returns the updated record and leaves every other record
  unchanged. On the demo data the update of the record with id 2 returns the
  updated record and replaces it in place, but the records with ids 1 and 3
  become \<^verbatim>\<open>undefined\<close>.
\<close>

theorem updateBlog_drops_other_records:
  "updateBlog \<lparr>params_id = Printed ''2'', body = Some ''X''\<rparr> blogs =
     (Inr \<lparr>blog_id = Printed ''2'', title = ''X''\<rparr>,
      [None, Some \<lparr>blog_id = Printed ''2'', title = ''X''\<rparr>, None])"
  by (simp add: updateBlog_def blogs_def Let_def)

subsection \<open>Delete and Get\<close>

text \<open>
  Claim C5: in every state, after Delete(id) the operation Get(id) yields
  not-found and List holds no record with that id. After an update of the record
  with id 1 the array holds undefined elements; then the deletion of id 1 throws
  and changes nothing, and the record with id 1 is still found and listed.
\<close>

theorem deleteBlog_throws_after_updateBlog:
  "snd (updateBlog \<lparr>params_id = Printed ''1'', body = Some ''X''\<rparr> blogs) =
     [Some \<lparr>blog_id = Printed ''1'', title = ''X''\<rparr>, None, None]
   \<and> deleteBlog \<lparr>params_id = Printed ''1'', body = None\<rparr>
         [Some \<lparr>blog_id = Printed ''1'', title = ''X''\<rparr>, None, None] =
       (Inl TypeError, [Some \<lparr>blog_id = Printed ''1'', title = ''X''\<rparr>, None, None])
   \<and> getBlog \<lparr>params_id = Printed ''1'', body = None\<rparr>
         [Some \<lparr>blog_id = Printed ''1'', title = ''X''\<rparr>, None, None] =
       (Inr (Some \<lparr>blog_id = Printed ''1'', title = ''X''\<rparr>),
        [Some \<lparr>blog_id = Printed ''1'', title = ''X''\<rparr>, None, None])
   \<and> getAllBlogs \<lparr>params_id = NaN, body = None\<rparr>
         [Some \<lparr>blog_id = Printed ''1'', title = ''X''\<rparr>, None, None] =
       (Inr [Some \<lparr>blog_id = Printed ''1'', title = ''X''\<rparr>, None, None],
        [Some \<lparr>blog_id = Printed ''1'', title = ''X''\<rparr>, None, None])"
  by (simp add: updateBlog_def deleteBlog_def getBlog_def getAllBlogs_def blogs_def Let_def)

text \<open>
  Claim C6: in every reachable state, Create(title) followed by Get on the id of
  the returned record yields a record with that title and that id. After the
  deletion of id 2 from the demo data, the new record gets the id 3, and Get on 3
  returns the older record with id 3 and another title.
\<close>

theorem getBlog_after_addBlog_finds_older_record:
  "fst (addBlog \<lparr>params_id = NaN, body = Some ''D''\<rparr>
          (snd (deleteBlog \<lparr>params_id = Printed ''2'', body = None\<rparr> blogs)))
     = Inr \<lparr>blog_id = Printed ''3'', title = ''D''\<rparr>
   \<and> fst (getBlog \<lparr>params_id = Printed ''3'', body = None\<rparr>
            (snd (addBlog \<lparr>params_id = NaN, body = Some ''D''\<rparr>
                    (snd (deleteBlog \<lparr>params_id = Printed ''2'', body = None\<rparr> blogs)))))
       = Inr (Some \<lparr>blog_id = Printed ''3'', title = ''Just another blog, yea!''\<rparr>)"
  by (simp add: deleteBlog_def addBlog_def getBlog_def blogs_def Let_def digits.simps)

text \<open>
  Claim C7: the scenario on the store \<open>[{1,"A"},{2,"B"},{3,"C"}]\<close>. The first
  three steps are as the claim says: GetOne(2) returns \<open>{2,"B"}\<close>, DeleteOne(2)
  returns the message for id 2, ListAll returns \<open>[{1,"A"},{3,"C"}]\<close>. The last
  step differs: AddOne with title \<open>"D"\<close> returns the id 3, not 4.
\<close>

theorem scenario_addBlog_returns_id_3:
  "getBlog \<lparr>params_id = Printed ''2'', body = None\<rparr> scenario_store =
     (Inr (Some \<lparr>blog_id = Printed ''2'', title = ''B''\<rparr>), scenario_store)
   \<and> deleteBlog \<lparr>params_id = Printed ''2'', body = None\<rparr> scenario_store =
       (Inr \<lparr>msg = ''Blog with ID 2 is deleted''\<rparr>,
        [Some \<lparr>blog_id = Printed ''1'', title = ''A''\<rparr>, Some \<lparr>blog_id = Printed ''3'', title = ''C''\<rparr>])
   \<and> getAllBlogs \<lparr>params_id = NaN, body = None\<rparr>
         [Some \<lparr>blog_id = Printed ''1'', title = ''A''\<rparr>, Some \<lparr>blog_id = Printed ''3'', title = ''C''\<rparr>] =
       (Inr [Some \<lparr>blog_id = Printed ''1'', title = ''A''\<rparr>, Some \<lparr>blog_id = Printed ''3'', title = ''C''\<rparr>],
        [Some \<lparr>blog_id = Printed ''1'', title = ''A''\<rparr>, Some \<lparr>blog_id = Printed ''3'', title = ''C''\<rparr>])
   \<and> addBlog \<lparr>params_id = NaN, body = Some ''D''\<rparr>
         [Some \<lparr>blog_id = Printed ''1'', title = ''A''\<rparr>, Some \<lparr>blog_id = Printed ''3'', title = ''C''\<rparr>] =
       (Inr \<lparr>blog_id = Printed ''3'', title = ''D''\<rparr>,
        [Some \<lparr>blog_id = Printed ''1'', title = ''A''\<rparr>, Some \<lparr>blog_id = Printed ''3'', title = ''C''\<rparr>,
         Some \<lparr>blog_id = Printed ''3'', title = ''D''\<rparr>])"
  by (simp add: getBlog_def deleteBlog_def getAllBlogs_def addBlog_def scenario_store_def
      Let_def digits.simps)

text \<open>
  Claim C8, as stated: Delete removes the matching record if there is one, is an
  error-free no-op otherwise, and its result states whether a record was removed.
  The result does not tell: deleting id 2 from the demo data removes a record,
  deleting id 2 again removes none, and both calls return the same message.
\<close>

theorem deleteBlog_result_counterexample:
  "snd (deleteBlog \<lparr>params_id = Printed ''2'', body = None\<rparr> blogs) \<noteq> blogs
   \<and> snd (deleteBlog \<lparr>params_id = Printed ''2'', body = None\<rparr>
            (snd (deleteBlog \<lparr>params_id = Printed ''2'', body = None\<rparr> blogs)))
       = snd (deleteBlog \<lparr>params_id = Printed ''2'', body = None\<rparr> blogs)
   \<and> fst (deleteBlog \<lparr>params_id = Printed ''2'', body = None\<rparr>
            (snd (deleteBlog \<lparr>params_id = Printed ''2'', body = None\<rparr> blogs)))
       = fst (deleteBlog \<lparr>params_id = Printed ''2'', body = None\<rparr> blogs)"
  by (simp add: deleteBlog_def blogs_def Let_def)

text \<open>
  Claim C8, amended: for every id, on an array whose elements are all records,
  the handler raises no error, removes exactly the records whose id is the
  requested one, leaves the array as it is when no record has that id, changes
  nothing when repeated, and returns the message \<open>Blog with ID <id> is deleted\<close>
  whether or not a record was removed.
\<close>

theorem deleteBlog_removes_matching:
  assumes "None \<notin> set bs"
  shows "deleteBlog req bs =
           (Inr \<lparr>msg = ''Blog with ID '' @ ToString (params_id req) @ '' is deleted''\<rparr>,
            filter (\<lambda>blog. \<not> matches (params_id req) blog) bs)
         \<and> (\<not> list_ex (matches (params_id req)) bs \<longrightarrow> snd (deleteBlog req bs) = bs)
         \<and> deleteBlog req (snd (deleteBlog req bs)) = deleteBlog req bs"
proof -
  let ?bs' = "filter (\<lambda>blog. \<not> matches (params_id req) blog) bs"
  have 1: "deleteBlog req bs =
             (Inr \<lparr>msg = ''Blog with ID '' @ ToString (params_id req) @ '' is deleted''\<rparr>, ?bs')"
    using assms by (rule deleteBlog_defined)
  have "None \<notin> set ?bs'" using assms by simp
  then have 2: "deleteBlog req ?bs' = deleteBlog req bs"
    by (simp add: deleteBlog_defined 1)
  have 3: "\<not> list_ex (matches (params_id req)) bs \<longrightarrow> ?bs' = bs"
    by (simp add: filter_id_conv list_ex_iff)
  from 1 2 3 show ?thesis by simp
qed

theorem deleteBlog_removes_matching_witness:
  "None \<notin> set blogs
   \<and> deleteBlog \<lparr>params_id = Printed ''2'', body = None\<rparr> blogs =
       (Inr \<lparr>msg = ''Blog with ID 2 is deleted''\<rparr>,
        [Some \<lparr>blog_id = Printed ''1'', title = ''This is an experiment''\<rparr>,
         Some \<lparr>blog_id = Printed ''3'', title = ''Just another blog, yea!''\<rparr>])
   \<and> \<not> list_ex (matches (Printed ''9'')) blogs
   \<and> deleteBlog \<lparr>params_id = Printed ''9'', body = None\<rparr> blogs =
       (Inr \<lparr>msg = ''Blog with ID 9 is deleted''\<rparr>, blogs)"
proof -
  have 1: "None \<notin> set blogs" by (simp add: blogs_def)
  have 2: "\<not> list_ex (matches (Printed ''9'')) blogs" by (simp add: blogs_def)
  have 3: "filter (\<lambda>blog. \<not> matches (Printed ''2'') blog) blogs =
             [Some \<lparr>blog_id = Printed ''1'', title = ''This is an experiment''\<rparr>,
              Some \<lparr>blog_id = Printed ''3'', title = ''Just another blog, yea!''\<rparr>]"
    by (simp add: blogs_def)
  from deleteBlog_removes_matching [OF 1, of "\<lparr>params_id = Printed ''2'', body = None\<rparr>"]
  have a: "deleteBlog \<lparr>params_id = Printed ''2'', body = None\<rparr> blogs =
       (Inr \<lparr>msg = ''Blog with ID 2 is deleted''\<rparr>,
        [Some \<lparr>blog_id = Printed ''1'', title = ''This is an experiment''\<rparr>,
         Some \<lparr>blog_id = Printed ''3'', title = ''Just another blog, yea!''\<rparr>])"
    by (simp add: 3)
  from deleteBlog_removes_matching [OF 1, of "\<lparr>params_id = Printed ''9'', body = None\<rparr>"] 2
  have b: "deleteBlog \<lparr>params_id = Printed ''9'', body = None\<rparr> blogs =
       (Inr \<lparr>msg = ''Blog with ID 9 is deleted''\<rparr>, blogs)"
    by auto
  from 1 2 a b show ?thesis by simp
qed

subsection \<open>Get on an id that is not stored\<close>

text \<open>
  Claim C10: for every path id that is the number of no stored record (also one
  that parses to \<^verbatim>\<open>NaN\<close>), GetOne returns the absent result, raises no error
  and leaves the store unchanged. After an update of the record with id 1 the
  array holds undefined elements, and GetOne on \<^verbatim>\<open>NaN\<close> throws a
  \<^verbatim>\<open>TypeError\<close>.
\<close>

theorem getBlog_throws_after_updateBlog:
  "\<not> list_ex (matches NaN) (snd (updateBlog \<lparr>params_id = Printed ''1'', body = Some ''X''\<rparr> blogs))
   \<and> fst (getBlog \<lparr>params_id = NaN, body = None\<rparr>
            (snd (updateBlog \<lparr>params_id = Printed ''1'', body = Some ''X''\<rparr> blogs)))
       = Inl TypeError"
  by (simp add: updateBlog_def getBlog_def blogs_def Let_def)

end
